theory Spec2Isabelle
  imports Main "HOL-Library.Sublist"
begin

section \<open>The Athena tool server (athena\_mcp\_server.py)\<close>

text \<open>
  A shallow embedding of \<^verbatim>\<open>src/athena_mcp_server.py\<close>: the lazily created client, the
  query orchestrator \<^verbatim>\<open>_execute_query_internal\<close> (submit, poll, interpret the terminal
  state, format) and the four tool functions built on it.

  A Python \<^verbatim>\<open>dict\<close> with string keys is a map from strings; \<^verbatim>\<open>d[k]\<close> raises
  \<^verbatim>\<open>KeyError\<close> on a missing key and \<^verbatim>\<open>d.get(k, default)\<close> does not. Exceptions are
  values: a computation that may raise returns \<open>py_exception + 'a\<close>, with \<open>Inl\<close> the
  exception. The values of \<open>py_exception\<close> stand for instances of Python's
  \<^verbatim>\<open>Exception\<close> class, which is what the handlers of the source catch.
\<close>

subsection \<open>Constants\<close>

definition DATABASE_NAME :: string where
  "DATABASE_NAME = ''drm_text2sql_db''"

definition OUTPUT_LOCATION :: string where
  "OUTPUT_LOCATION = ''s3://glab-drm-query-results/''"

subsection \<open>Exceptions and dictionaries\<close>

datatype py_exception =
    KeyError string
  | UnboundLocalError string
  | ClientException string

text \<open>
  \<^verbatim>\<open>str(e)\<close>. A \<^verbatim>\<open>KeyError\<close> prints the \<^verbatim>\<open>repr\<close> of its key, which for the keys of
  this program (letters only) is the key between single quotes. \<open>ClientException m\<close> is
  any exception raised inside the boto3 client, \<open>m\<close> being its \<^verbatim>\<open>str\<close>.
\<close>

fun str_exc :: "py_exception \<Rightarrow> string" where
  "str_exc (KeyError k) = [CHR 0x27] @ k @ [CHR 0x27]"
| "str_exc (UnboundLocalError v) =
     ''cannot access local variable '' @ [CHR 0x27] @ v @ [CHR 0x27] @
     '' where it is not associated with a value''"
| "str_exc (ClientException m) = m"

type_synonym 'v py_dict = "string \<rightharpoonup> 'v"

definition getitem :: "'v py_dict \<Rightarrow> string \<Rightarrow> py_exception + 'v" where
  "getitem d k = (case d k of None \<Rightarrow> Inl (KeyError k) | Some v \<Rightarrow> Inr v)"

definition get_default :: "'v py_dict \<Rightarrow> string \<Rightarrow> 'v \<Rightarrow> 'v" where
  "get_default d k dflt = (case d k of None \<Rightarrow> dflt | Some v \<Rightarrow> v)"

definition and_then :: "py_exception + 'a \<Rightarrow> ('a \<Rightarrow> py_exception + 'b) \<Rightarrow> py_exception + 'b" where
  "and_then m f = (case m of Inl e \<Rightarrow> Inl e | Inr x \<Rightarrow> f x)"

text \<open>A parameter with a default value: \<open>None\<close> is the call that omits it.\<close>

definition with_default :: "'a option \<Rightarrow> 'a \<Rightarrow> 'a" where
  "with_default arg dflt = (case arg of None \<Rightarrow> dflt | Some v \<Rightarrow> v)"

subsection \<open>Strings\<close>

text \<open>\<^verbatim>\<open>str(n)\<close> for an integer, and \<^verbatim>\<open>sep.join(xs)\<close>.\<close>

fun str_nat :: "nat \<Rightarrow> string" where
  "str_nat n =
     (if n < 10 then [''0123456789'' ! n]
      else str_nat (n div 10) @ [''0123456789'' ! (n mod 10)])"

definition str_int :: "int \<Rightarrow> string" where
  "str_int i = (if i < 0 then ''-'' @ str_nat (nat (- i)) else str_nat (nat i))"

fun join :: "string \<Rightarrow> string list \<Rightarrow> string" where
  "join sep [] = []"
| "join sep [x] = x"
| "join sep (x # y # ys) = x @ sep @ join sep (y # ys)"

subsection \<open>The remote service\<close>

text \<open>
  The shapes of the responses the code reads:
  \<^item> a cell (\<^verbatim>\<open>col\<close>) is a dictionary that has the key \<^verbatim>\<open>VarCharValue\<close> or not;
  \<^item> a row is a dictionary with the cells under \<^verbatim>\<open>Data\<close>;
  \<^item> the result of \<^verbatim>\<open>get_query_results\<close> holds the rows under \<^verbatim>\<open>ResultSet\<close>,
    \<^verbatim>\<open>Rows\<close>;
  \<^item> the result of \<^verbatim>\<open>get_query_execution\<close> holds, under \<^verbatim>\<open>QueryExecution\<close>,
    \<^verbatim>\<open>Status\<close>, a dictionary with \<^verbatim>\<open>State\<close> and perhaps \<^verbatim>\<open>StateChangeReason\<close>.
\<close>

type_synonym datum = "string py_dict"
type_synonym row = "datum list py_dict"
type_synonym query_results = "row list py_dict py_dict"
type_synonym query_status = "string py_dict py_dict py_dict"

text \<open>
  The client object. Each operation may raise. \<open>start_query_execution\<close> takes the
  query string, the database and the output location. The status of an execution
  changes with time: \<open>get_query_execution c qid i\<close> is what the call number \<open>i\<close>
  (from 0) of one invocation answers.
\<close>

record athena_client =
  start_query_execution :: "string \<Rightarrow> string \<Rightarrow> string \<Rightarrow> py_exception + string py_dict"
  get_query_execution :: "string \<Rightarrow> nat \<Rightarrow> py_exception + query_status"
  get_query_results :: "string \<Rightarrow> py_exception + query_results"

subsection \<open>The global client\<close>

text \<open>
  The module's state is the global \<^verbatim>\<open>_athena_client\<close>. \<open>boto3_calls\<close> counts the calls
  of \<^verbatim>\<open>boto3.client\<close> made so far: the parameter \<open>boto3_client n\<close> is the outcome of
  call number \<open>n\<close>, a new client object or an exception.
\<close>

record 'c module_state =
  athena_client_var :: "'c option"
  boto3_calls :: nat

definition get_athena_client ::
  "(nat \<Rightarrow> py_exception + 'c) \<Rightarrow> 'c module_state \<Rightarrow> (py_exception + 'c) \<times> 'c module_state" where
  "get_athena_client boto3_client s =
     (case athena_client_var s of
        None \<Rightarrow>
          (let s1 = s\<lparr>boto3_calls := boto3_calls s + 1\<rparr> in
           case boto3_client (boto3_calls s) of
             Inl e \<Rightarrow> (Inl e, s1)
           | Inr c \<Rightarrow> (Inr c, s1\<lparr>athena_client_var := Some c\<rparr>))
      | Some c \<Rightarrow> (Inr c, s))"

subsection \<open>Polling\<close>

definition max_attempts :: nat where
  "max_attempts = 30"

definition terminal_states :: "string list" where
  "terminal_states = [''SUCCEEDED'', ''FAILED'', ''CANCELLED'']"

text \<open>\<^verbatim>\<open>query_status['QueryExecution']['Status']\<close> and its \<^verbatim>\<open>['State']\<close>.\<close>

definition status_dict :: "query_status \<Rightarrow> py_exception + string py_dict" where
  "status_dict query_status =
     and_then (getitem query_status ''QueryExecution'') (\<lambda>qe. getitem qe ''Status'')"

definition status_state :: "query_status \<Rightarrow> py_exception + string" where
  "status_state query_status =
     and_then (status_dict query_status) (\<lambda>sd. getitem sd ''State'')"

text \<open>
  The \<^verbatim>\<open>while attempt < max_attempts\<close> loop. \<open>seen\<close> holds the variables
  \<^verbatim>\<open>query_status\<close> and \<^verbatim>\<open>status\<close>, unbound before the first iteration. The loop
  returns them together with \<^verbatim>\<open>attempt\<close>; \<^verbatim>\<open>time.sleep(1)\<close> changes none of them.
\<close>

function poll_loop ::
  "athena_client \<Rightarrow> string \<Rightarrow> nat \<Rightarrow> (query_status \<times> string) option \<Rightarrow>
   py_exception + (query_status \<times> string \<times> nat)" where
  "poll_loop client query_execution_id attempt seen =
     (if attempt < max_attempts then
        (case get_query_execution client query_execution_id attempt of
           Inl e \<Rightarrow> Inl e
         | Inr query_status \<Rightarrow>
             (case status_state query_status of
                Inl e \<Rightarrow> Inl e
              | Inr status \<Rightarrow>
                  if status \<in> set terminal_states then Inr (query_status, status, attempt)
                  else poll_loop client query_execution_id (attempt + 1)
                         (Some (query_status, status))))
      else
        (case seen of
           None \<Rightarrow> Inl (UnboundLocalError ''status'')
         | Some (query_status, status) \<Rightarrow> Inr (query_status, status, attempt)))"
  by pat_completeness auto
termination
  by (relation "measure (\<lambda>(client, qid, attempt, seen). max_attempts - attempt)") auto

subsection \<open>Formatting the result set\<close>

text \<open>\<^verbatim>\<open>[col['VarCharValue'] for col in cols]\<close>: the first missing key raises.\<close>

fun header_values :: "datum list \<Rightarrow> py_exception + string list" where
  "header_values [] = Inr []"
| "header_values (col # cols) =
     (case getitem col ''VarCharValue'' of
        Inl e \<Rightarrow> Inl e
      | Inr v \<Rightarrow>
          (case header_values cols of
             Inl e \<Rightarrow> Inl e
           | Inr vs \<Rightarrow> Inr (v # vs)))"

text \<open>\<^verbatim>\<open>[col.get('VarCharValue', 'NULL') for col in cols]\<close>.\<close>

definition row_values :: "datum list \<Rightarrow> string list" where
  "row_values cols = map (\<lambda>col. get_default col ''VarCharValue'' ''NULL'') cols"

text \<open>The \<^verbatim>\<open>for row in rows[1:11]\<close> loop, appending one line a row to the text.\<close>

fun render_rows :: "string \<Rightarrow> row list \<Rightarrow> py_exception + string" where
  "render_rows response_text [] = Inr response_text"
| "render_rows response_text (row # rest) =
     (case getitem row ''Data'' of
        Inl e \<Rightarrow> Inl e
      | Inr cols \<Rightarrow>
          render_rows (response_text @ join '' | '' (row_values cols) @ ''\<newline>'') rest)"

definition format_rows :: "row list \<Rightarrow> py_exception + string" where
  "format_rows rows =
     (case rows of
        [] \<Rightarrow> Inr ''Query executed successfully but returned no results.''
      | row0 # _ \<Rightarrow>
          and_then (getitem row0 ''Data'') (\<lambda>cols0.
          and_then (header_values cols0) (\<lambda>headers.
            let response_text = ''Query executed successfully!\<newline>\<newline>'';
                response_text = response_text @ ''Columns: '' @ join '', '' headers @ ''\<newline>\<newline>'';
                response_text = response_text @
                  ''Results ('' @ str_int (int (length rows) - 1) @ '' rows):\<newline>''
            in and_then (render_rows response_text (take 10 (drop 1 rows))) (\<lambda>response_text.
                 Inr (if length rows > 11
                      then response_text @
                        ''\<newline>... and '' @ str_int (int (length rows) - 11) @ '' more rows''
                      else response_text)))))"

subsection \<open>The orchestrator\<close>

text \<open>The body of the \<^verbatim>\<open>try\<close> block, from the submission on.\<close>

definition run_query :: "athena_client \<Rightarrow> string \<Rightarrow> string \<Rightarrow> py_exception + string" where
  "run_query client query output_location =
     and_then (start_query_execution client query DATABASE_NAME output_location) (\<lambda>response.
     and_then (getitem response ''QueryExecutionId'') (\<lambda>query_execution_id.
     and_then (poll_loop client query_execution_id 0 None) (\<lambda>(query_status, status, attempt).
       if status = ''SUCCEEDED'' then
         and_then (get_query_results client query_execution_id) (\<lambda>results.
         and_then (getitem results ''ResultSet'') (\<lambda>result_set.
         and_then (getitem result_set ''Rows'') format_rows))
       else if status = ''FAILED'' then
         and_then (status_dict query_status) (\<lambda>sd.
           Inr (''Query failed: '' @ get_default sd ''StateChangeReason'' ''Unknown error''))
       else if status = ''CANCELLED'' then
         Inr ''Query was cancelled.''
       else
         Inr (''Query timed out after '' @ str_nat max_attempts @ '' seconds. Status: '' @ status))))"

text \<open>
  The \<^verbatim>\<open>except Exception as e\<close> branch. \<open>format_exc\<close> is \<^verbatim>\<open>traceback.format_exc()\<close>
  for the exception being handled, a parameter of the model.
\<close>

definition error_text :: "(py_exception \<Rightarrow> string) \<Rightarrow> py_exception \<Rightarrow> string" where
  "error_text format_exc e = ''Error: '' @ str_exc e @ ''\<newline>'' @ format_exc e"

definition execute_query_internal ::
  "(nat \<Rightarrow> py_exception + athena_client) \<Rightarrow> (py_exception \<Rightarrow> string) \<Rightarrow>
   athena_client module_state \<Rightarrow> string \<Rightarrow> string option \<Rightarrow> string \<times> athena_client module_state" where
  "execute_query_internal boto3_client format_exc s query output_location =
     (case get_athena_client boto3_client s of
        (Inl e, s') \<Rightarrow> (error_text format_exc e, s')
      | (Inr client, s') \<Rightarrow>
          (case run_query client query (with_default output_location OUTPUT_LOCATION) of
             Inl e \<Rightarrow> (error_text format_exc e, s')
           | Inr response_text \<Rightarrow> (response_text, s')))"

subsection \<open>The tools\<close>





subsection \<open>Sequences of tool invocations\<close>




section \<open>What a run of the service looks like\<close>

text \<open>
  The conditions the properties below are stated under, as predicates on the client:
  the submission returns the handle \<open>qid\<close>; poll number \<open>i\<close> answers a state that is
  not terminal; poll number \<open>k\<close> is made (it is within the budget and every poll before
  it answered a state that is not terminal).
\<close>

definition submits :: "athena_client \<Rightarrow> string \<Rightarrow> string \<Rightarrow> string \<Rightarrow> bool" where
  "submits client query output_location qid =
     (case start_query_execution client query DATABASE_NAME output_location of
        Inl e \<Rightarrow> False
      | Inr response \<Rightarrow> response ''QueryExecutionId'' = Some qid)"

definition pending :: "athena_client \<Rightarrow> string \<Rightarrow> nat \<Rightarrow> bool" where
  "pending client qid i =
     (case and_then (get_query_execution client qid i) status_state of
        Inl e \<Rightarrow> False
      | Inr status \<Rightarrow> status \<notin> set terminal_states)"

definition reaches_poll :: "athena_client \<Rightarrow> string \<Rightarrow> nat \<Rightarrow> bool" where
  "reaches_poll client qid k = (k < max_attempts \<and> (\<forall>i<k. pending client qid i))"

text \<open>Poll number \<open>k\<close> is made and answers \<open>qs\<close>, whose state is \<open>st\<close>.\<close>

definition observes :: "athena_client \<Rightarrow> string \<Rightarrow> nat \<Rightarrow> query_status \<Rightarrow> string \<Rightarrow> bool" where
  "observes client qid k qs st =
     (reaches_poll client qid k \<and> get_query_execution client qid k = Inr qs \<and>
      status_state qs = Inr st)"

text \<open>Poll number \<open>k\<close> is made and the state it answers is \<open>st\<close>.\<close>

definition observes_state :: "athena_client \<Rightarrow> string \<Rightarrow> nat \<Rightarrow> string \<Rightarrow> bool" where
  "observes_state client qid k st =
     (reaches_poll client qid k \<and>
      and_then (get_query_execution client qid k) status_state = Inr st)"

text \<open>The fetch of the results returns the rows \<open>rows\<close>.\<close>

definition fetches :: "athena_client \<Rightarrow> string \<Rightarrow> row list \<Rightarrow> bool" where
  "fetches client qid rows =
     (case get_query_results client qid of
        Inl e \<Rightarrow> False
      | Inr results \<Rightarrow>
          (case results ''ResultSet'' of
             None \<Rightarrow> False
           | Some result_set \<Rightarrow> result_set ''Rows'' = Some rows))"

text \<open>
  The query is submitted, poll number \<open>k\<close> is the first to answer a terminal state,
  which is SUCCEEDED, and the fetch returns \<open>rows\<close>.
\<close>

definition succeeds_with ::
  "athena_client \<Rightarrow> string \<Rightarrow> string \<Rightarrow> string \<Rightarrow> nat \<Rightarrow> row list \<Rightarrow> bool" where
  "succeeds_with client query output_location qid k rows =
     (submits client query output_location qid \<and>
      observes_state client qid k ''SUCCEEDED'' \<and>
      fetches client qid rows)"

text \<open>The rows \<open>rows\<close> carry, under \<^verbatim>\<open>Data\<close>, the cell lists \<open>colss\<close>, in order.\<close>

definition data_of :: "row list \<Rightarrow> datum list list \<Rightarrow> bool" where
  "data_of rows colss = (map (\<lambda>row. row ''Data'') rows = map Some colss)"

text \<open>Every cell of the list has a value.\<close>

definition all_present :: "datum list \<Rightarrow> bool" where
  "all_present cols = (\<forall>col \<in> set cols. col ''VarCharValue'' \<noteq> None)"

text \<open>The text of one data row, and of the whole report for a header and data rows.\<close>

definition row_line :: "datum list \<Rightarrow> string" where
  "row_line cols = join '' | '' (row_values cols) @ ''\<newline>''"

definition report_head :: "string list \<Rightarrow> nat \<Rightarrow> string" where
  "report_head headers n =
     ''Query executed successfully!\<newline>\<newline>'' @
     ''Columns: '' @ join '', '' headers @ ''\<newline>\<newline>'' @
     ''Results ('' @ str_nat n @ '' rows):\<newline>''"



subsection \<open>Sample responses\<close>

definition cell :: "string option \<Rightarrow> datum" where
  "cell v = (\<lambda>k. if k = ''VarCharValue'' then v else None)"

definition data_row :: "string option list \<Rightarrow> row" where
  "data_row vs = [''Data'' \<mapsto> map cell vs]"

definition rows_response :: "row list \<Rightarrow> query_results" where
  "rows_response rows = [''ResultSet'' \<mapsto> [''Rows'' \<mapsto> rows]]"

definition status_response :: "string \<Rightarrow> string option \<Rightarrow> query_status" where
  "status_response state reason =
     [''QueryExecution'' \<mapsto> [''Status'' \<mapsto>
        (\<lambda>k. if k = ''State'' then Some state
             else if k = ''StateChangeReason'' then reason else None)]]"

text \<open>
  A client that answers every submission with the handle \<open>q1\<close> (or raises), the polls
  with \<open>polls\<close> and the fetch with \<open>fetch\<close>.
\<close>

definition scripted_client ::
  "py_exception option \<Rightarrow> (nat \<Rightarrow> py_exception + query_status) \<Rightarrow>
   py_exception + row list \<Rightarrow> athena_client" where
  "scripted_client submit_error polls fetch =
     \<lparr> start_query_execution =
         (\<lambda>query database output_location.
            case submit_error of
              Some e \<Rightarrow> Inl e
            | None \<Rightarrow> Inr [''QueryExecutionId'' \<mapsto> ''q1'']),
       get_query_execution = (\<lambda>qid. polls),
       get_query_results =
         (\<lambda>qid. case fetch of Inl e \<Rightarrow> Inl e | Inr rows \<Rightarrow> Inr (rows_response rows)) \<rparr>"

text \<open>Polls that answer RUNNING \<open>n\<close> times and then the state \<open>state\<close>.\<close>

definition running_then :: "nat \<Rightarrow> string \<Rightarrow> string option \<Rightarrow> nat \<Rightarrow> py_exception + query_status" where
  "running_then n state reason i =
     (if i < n then Inr (status_response ''RUNNING'' None)
      else Inr (status_response state reason))"


text \<open>The module before any call, and a text standing for the trace.\<close>

definition fresh_state :: "athena_client module_state" where
  "fresh_state = \<lparr> athena_client_var = None, boto3_calls = 0 \<rparr>"

definition sample_trace :: "py_exception \<Rightarrow> string" where
  "sample_trace e = ''Traceback (most recent call last): ...''"

text \<open>A \<^verbatim>\<open>boto3.client\<close> that returns the given client at every call.\<close>

definition always :: "athena_client \<Rightarrow> nat \<Rightarrow> py_exception + athena_client" where
  "always client n = Inr client"

text \<open>A client whose query succeeds at the second poll and returns the given rows.\<close>

definition succeeding_client :: "string option list list \<Rightarrow> athena_client" where
  "succeeding_client vss =
     scripted_client None (running_then 1 ''SUCCEEDED'' None) (Inr (map data_row vss))"

section \<open>The poll loop\<close>

declare poll_loop.simps [simp del]

declare str_nat.simps [simp del]

lemma poll_loop_pending:
  assumes "attempt < max_attempts" and "pending client qid attempt"
  shows "\<exists>seen'. poll_loop client qid attempt seen = poll_loop client qid (attempt + 1) (Some seen')
     \<and> get_query_execution client qid attempt = Inr (fst seen') \<and> status_state (fst seen') = Inr (snd seen')"
  using assms
  by (subst poll_loop.simps) (auto simp: pending_def and_then_def split: sum.splits)

lemma poll_loop_terminal:
  assumes "k < max_attempts" and "attempt \<le> k"
    and "\<forall>i. attempt \<le> i \<and> i < k \<longrightarrow> pending client qid i"
    and "get_query_execution client qid k = Inr qs" and "status_state qs = Inr st"
    and "st \<in> set terminal_states"
  shows "poll_loop client qid attempt seen = Inr (qs, st, k)"
  using assms
proof (induction "k - attempt" arbitrary: attempt seen)
  case 0
  then have "attempt = k" by simp
  with 0 show ?case by (subst poll_loop.simps) simp
next
  case (Suc d)
  then have lt: "attempt < k" and p: "pending client qid attempt" by auto
  with Suc.prems have "attempt < max_attempts" by simp
  from poll_loop_pending[OF this p] obtain seen' where
    "poll_loop client qid attempt seen = poll_loop client qid (attempt + 1) (Some seen')" by blast
  moreover have "poll_loop client qid (attempt + 1) (Some seen') = Inr (qs, st, k)"
    using Suc.hyps Suc.prems lt by (intro Suc.hyps(1)) auto
  ultimately show ?case by simp
qed


lemma poll_loop_exhausted:
  assumes "attempt < max_attempts"
    and "\<forall>i. attempt \<le> i \<and> i < max_attempts \<longrightarrow> pending client qid i"
    and "get_query_execution client qid (max_attempts - 1) = Inr qs" and "status_state qs = Inr st"
  shows "poll_loop client qid attempt seen = Inr (qs, st, max_attempts)"
  using assms
proof (induction "max_attempts - attempt" arbitrary: attempt seen)
  case 0
  then show ?case by simp
next
  case (Suc d)
  then have p: "pending client qid attempt" by auto
  from poll_loop_pending[OF Suc.prems(1) p] obtain seen' where
    s: "poll_loop client qid attempt seen = poll_loop client qid (attempt + 1) (Some seen')"
    and g: "get_query_execution client qid attempt = Inr (fst seen')"
    and t: "status_state (fst seen') = Inr (snd seen')" by blast
  show ?case
  proof (cases "attempt + 1 < max_attempts")
    case True
    have "poll_loop client qid (attempt + 1) (Some seen') = Inr (qs, st, max_attempts)"
      using Suc.hyps Suc.prems True by (intro Suc.hyps(1)) auto
    with s show ?thesis by simp
  next
    case False
    with Suc.prems(1) have e: "attempt = max_attempts - 1" "attempt + 1 = max_attempts" by auto
    with g t Suc.prems have "seen' = (qs, st)" by (cases seen') auto
    with s e show ?thesis by (subst (asm) poll_loop.simps) (simp)
  qed
qed

section \<open>The orchestrator, stage by stage\<close>

lemma and_then_Inl [simp]: "and_then (Inl e) f = Inl e"
  by (simp add: and_then_def)

lemma and_then_Inr [simp]: "and_then (Inr x) f = f x"
  by (simp add: and_then_def)

lemma observes_state_poll:
  assumes "observes_state client qid k st" and "st \<in> set terminal_states"
  shows "\<exists>qs. poll_loop client qid 0 None = Inr (qs, st, k) \<and> status_state qs = Inr st"
proof -
  from assms(1) obtain qs where k: "k < max_attempts" and p: "\<forall>i<k. pending client qid i"
    and g: "get_query_execution client qid k = Inr qs" and s: "status_state qs = Inr st"
    by (auto simp: observes_state_def reaches_poll_def and_then_def split: sum.splits)
  have "poll_loop client qid 0 None = Inr (qs, st, k)"
    using k p g s assms(2) by (intro poll_loop_terminal) auto
  with s show ?thesis by blast
qed


lemma run_query_submitted:
  assumes "submits client query output_location qid"
  shows "run_query client query output_location =
     and_then (poll_loop client qid 0 None) (\<lambda>(query_status, status, attempt).
       if status = ''SUCCEEDED'' then
         and_then (get_query_results client qid) (\<lambda>results.
         and_then (getitem results ''ResultSet'') (\<lambda>result_set.
         and_then (getitem result_set ''Rows'') format_rows))
       else if status = ''FAILED'' then
         and_then (status_dict query_status) (\<lambda>sd.
           Inr (''Query failed: '' @ get_default sd ''StateChangeReason'' ''Unknown error''))
       else if status = ''CANCELLED'' then
         Inr ''Query was cancelled.''
       else
         Inr (''Query timed out after '' @ str_nat max_attempts @ '' seconds. Status: '' @ status))"
proof -
  from assms obtain response where
    "start_query_execution client query DATABASE_NAME output_location = Inr response"
    and "response ''QueryExecutionId'' = Some qid"
    by (auto simp: submits_def split: sum.splits)
  then show ?thesis
    by (simp add: run_query_def getitem_def)
qed


lemma run_query_succeeded:
  assumes "submits client query output_location qid"
    and "poll_loop client qid 0 None = Inr (qs, ''SUCCEEDED'', n)"
  shows "run_query client query output_location =
         and_then (get_query_results client qid) (\<lambda>results.
         and_then (getitem results ''ResultSet'') (\<lambda>result_set.
         and_then (getitem result_set ''Rows'') format_rows))"
  by (simp add: run_query_submitted[OF assms(1)] assms(2) and_then_def)

lemma run_query_failed:
  assumes "submits client query output_location qid"
    and "poll_loop client qid 0 None = Inr (qs, ''FAILED'', n)"
  shows "run_query client query output_location =
         and_then (status_dict qs) (\<lambda>sd.
           Inr (''Query failed: '' @ get_default sd ''StateChangeReason'' ''Unknown error''))"
  by (simp add: run_query_submitted[OF assms(1)] assms(2) and_then_def)

lemma run_query_cancelled:
  assumes "submits client query output_location qid"
    and "poll_loop client qid 0 None = Inr (qs, ''CANCELLED'', n)"
  shows "run_query client query output_location = Inr ''Query was cancelled.''"
  by (simp add: run_query_submitted[OF assms(1)] assms(2) and_then_def)

lemma run_query_not_terminal:
  assumes "submits client query output_location qid"
    and "poll_loop client qid 0 None = Inr (qs, st, n)"
    and "st \<notin> set terminal_states"
  shows "run_query client query output_location =
         Inr (''Query timed out after '' @ str_nat max_attempts @ '' seconds. Status: '' @ st)"
  using assms(3)
  by (auto simp add: run_query_submitted[OF assms(1)] assms(2) and_then_def terminal_states_def)

lemma run_query_fetched:
  assumes "succeeds_with client query output_location qid k rows"
  shows "run_query client query output_location = format_rows rows"
proof -
  from assms have sub: "submits client query output_location qid"
    and obs: "observes_state client qid k ''SUCCEEDED''" and f: "fetches client qid rows"
    by (simp_all add: succeeds_with_def)
  from observes_state_poll[OF obs] obtain qs where
    "poll_loop client qid 0 None = Inr (qs, ''SUCCEEDED'', k)"
    by (auto simp: terminal_states_def)
  from run_query_succeeded[OF sub this] f show ?thesis
    by (auto simp: fetches_def and_then_def getitem_def split: sum.splits option.splits)
qed

lemma execute_query_internal_run:
  assumes "get_athena_client boto3_client s = (Inr client, s')"
  shows "execute_query_internal boto3_client format_exc s query output_location =
     (case run_query client query (with_default output_location OUTPUT_LOCATION) of
        Inl e \<Rightarrow> (error_text format_exc e, s')
      | Inr response_text \<Rightarrow> (response_text, s'))"
  by (simp add: execute_query_internal_def assms)

lemma str_nat_30: "str_nat max_attempts = ''30''"
  by code_simp

section \<open>Formatting\<close>

lemma header_values_present:
  "all_present cols \<Longrightarrow> header_values cols = Inr (row_values cols)"
  by (induction cols) (auto simp: all_present_def row_values_def getitem_def get_default_def)

lemma header_values_missing:
  "\<not> all_present cols \<Longrightarrow> header_values cols = Inl (KeyError ''VarCharValue'')"
proof (induction cols)
  case Nil
  then show ?case by (simp add: all_present_def)
next
  case (Cons col cols)
  show ?case
  proof (cases "col ''VarCharValue''")
    case None
    then show ?thesis by (simp add: getitem_def)
  next
    case (Some v)
    with Cons.prems have "\<not> all_present cols" by (auto simp: all_present_def)
    with Cons.IH Some show ?thesis by (simp add: getitem_def)
  qed
qed

lemma render_rows_data:
  "data_of rs colss \<Longrightarrow>
   render_rows response_text rs = Inr (response_text @ concat (map row_line colss))"
proof (induction rs arbitrary: colss response_text)
  case Nil
  then show ?case by (simp add: data_of_def)
next
  case (Cons r rs)
  then obtain cols rest where c: "colss = cols # rest" and r: "r ''Data'' = Some cols"
    and d: "data_of rs rest"
    by (cases colss) (auto simp: data_of_def)
  from Cons.IH[OF d] r c show ?case
    by (simp add: getitem_def row_line_def)
qed

lemma data_of_take: "data_of rs colss \<Longrightarrow> data_of (take n rs) (take n colss)"
  unfolding data_of_def by (metis take_map)

lemma data_of_length: "data_of rs colss \<Longrightarrow> length rs = length colss"
  unfolding data_of_def by (metis length_map)

lemma str_int_nat: "str_int (int n) = str_nat n"
  by (simp add: str_int_def)

lemma format_rows_empty:
  "format_rows [] = Inr ''Query executed successfully but returned no results.''"
  by (simp add: format_rows_def)

lemma format_rows_header_missing:
  assumes "row0 ''Data'' = Some cols0" and "\<not> all_present cols0"
  shows "format_rows (row0 # rest) = Inl (KeyError ''VarCharValue'')"
  using assms by (simp add: format_rows_def getitem_def header_values_missing)

lemma format_rows_data:
  assumes "data_of rows (cols0 # data)" and "all_present cols0"
  shows "format_rows rows =
     Inr (report_head (row_values cols0) (length data) @
          concat (map row_line (take 10 data)) @
          (if length data > 10
           then ''\<newline>... and '' @ str_nat (length data - 10) @ '' more rows''
           else []))"
proof -
  from assms(1) obtain row0 rest where rows: "rows = row0 # rest"
    and r0: "row0 ''Data'' = Some cols0" and d: "data_of rest data"
    by (cases rows) (auto simp: data_of_def)
  have len: "length rest = length data" using d by (rule data_of_length)
  have i1: "str_int (int (Suc (length data)) - 1) = str_nat (length data)"
    by (simp add: str_int_nat)
  have i2: "str_int (int (Suc (length data)) - 11) = str_nat (length data - 10)"
    if "10 < length data"
  proof -
    from that have "int (Suc (length data)) - 11 = int (length data - 10)" by simp
    then show ?thesis by (simp only: str_int_nat)
  qed
  have rr: "render_rows t (take 10 rest) = Inr (t @ concat (map row_line (take 10 data)))" for t
    using data_of_take[OF d] by (rule render_rows_data)
  show ?thesis
    using r0 i1 i2
    by (simp add: format_rows_def rows getitem_def header_values_present[OF assms(2)]
        rr report_head_def len del: of_nat_Suc)
qed

section \<open>Sample clients\<close>

lemma get_athena_client_fresh:
  "get_athena_client (always client) fresh_state =
     (Inr client, \<lparr> athena_client_var = Some client, boto3_calls = 1 \<rparr>)"
  by (simp add: get_athena_client_def always_def fresh_state_def)

lemma scripted_submits:
  "submits (scripted_client None polls fetch) query output_location ''q1''"
  by (simp add: submits_def scripted_client_def)

lemma status_state_response [simp]:
  "status_state (status_response state reason) = Inr state"
  by (simp add: status_state_def status_dict_def status_response_def getitem_def)

lemma status_dict_response:
  "\<exists>sd. status_dict (status_response state reason) = Inr sd \<and> sd ''StateChangeReason'' = reason"
  by (simp add: status_dict_def status_response_def getitem_def)

lemma scripted_pending:
  "i < n \<Longrightarrow> pending (scripted_client e (running_then n state reason) fetch) qid i"
  by (simp add: pending_def scripted_client_def running_then_def terminal_states_def)

lemma scripted_observes_state:
  "n < 30 \<Longrightarrow>
   observes_state (scripted_client e (running_then n state reason) fetch) qid n state"
  by (simp add: observes_state_def reaches_poll_def scripted_pending max_attempts_def)
     (simp add: scripted_client_def running_then_def)

lemma scripted_observes:
  "n < 30 \<Longrightarrow>
   observes (scripted_client e (running_then n state reason) fetch) qid n
     (status_response state reason) state"
  by (simp add: observes_def reaches_poll_def scripted_pending max_attempts_def)
     (simp add: scripted_client_def running_then_def)

lemma scripted_fetches:
  "fetches (scripted_client e polls (Inr rows)) qid rows"
  by (simp add: fetches_def scripted_client_def rows_response_def)

section \<open>Properties of the orchestrator\<close>

lemma observes_poll:
  assumes "observes client qid k qs st" and "st \<in> set terminal_states"
  shows "poll_loop client qid 0 None = Inr (qs, st, k)"
  using assms
  by (intro poll_loop_terminal) (auto simp: observes_def reaches_poll_def)

text \<open>
  C7: whenever a poll observes the terminal status CANCELLED, the orchestrator returns
  the fixed cancellation message, whatever the number \<open>k\<close> of polls that answered a state
  that is not terminal before it.
\<close>

theorem cancelled_fixed_message:
  assumes "get_athena_client boto3_client s = (Inr client, s')"
    and "submits client query (with_default output_location OUTPUT_LOCATION) qid"
    and "observes_state client qid k ''CANCELLED''"
  shows "fst (execute_query_internal boto3_client format_exc s query output_location) =
         ''Query was cancelled.''"
proof -
  from observes_state_poll[OF assms(3)] obtain qs where
    "poll_loop client qid 0 None = Inr (qs, ''CANCELLED'', k)"
    by (auto simp: terminal_states_def)
  from run_query_cancelled[OF assms(2) this] show ?thesis
    by (simp add: execute_query_internal_run[OF assms(1)])
qed

theorem cancelled_fixed_message_witness:
  "get_athena_client (always (scripted_client None (running_then 2 ''CANCELLED'' None) (Inr [])))
     fresh_state =
     (Inr (scripted_client None (running_then 2 ''CANCELLED'' None) (Inr [])),
      \<lparr> athena_client_var = Some (scripted_client None (running_then 2 ''CANCELLED'' None) (Inr [])),
        boto3_calls = 1 \<rparr>) \<and>
   submits (scripted_client None (running_then 2 ''CANCELLED'' None) (Inr []))
     ''SELECT 1'' (with_default None OUTPUT_LOCATION) ''q1'' \<and>
   observes_state (scripted_client None (running_then 2 ''CANCELLED'' None) (Inr []))
     ''q1'' 2 ''CANCELLED'' \<and>
   fst (execute_query_internal
         (always (scripted_client None (running_then 2 ''CANCELLED'' None) (Inr [])))
         sample_trace fresh_state ''SELECT 1'' None) = ''Query was cancelled.''"
proof -
  let ?c = "scripted_client None (running_then 2 ''CANCELLED'' None) (Inr [])"
  have a: "get_athena_client (always ?c) fresh_state =
     (Inr ?c, \<lparr> athena_client_var = Some ?c, boto3_calls = 1 \<rparr>)"
    by (rule get_athena_client_fresh)
  have b: "submits ?c ''SELECT 1'' (with_default None OUTPUT_LOCATION) ''q1''"
    by (rule scripted_submits)
  have c: "observes_state ?c ''q1'' 2 ''CANCELLED''"
    by (rule scripted_observes_state) simp
  from a b c cancelled_fixed_message[OF a b c, of sample_trace] show ?thesis
    by simp
qed

text \<open>
  C5: whenever a poll observes the terminal status FAILED, the orchestrator returns
  \<open>Query failed: \<close> followed by the reason the engine gave under \<open>StateChangeReason\<close>,
  or by \<open>Unknown error\<close> when the status carries no reason.
\<close>

theorem failed_reports_reason:
  assumes "get_athena_client boto3_client s = (Inr client, s')"
    and "submits client query (with_default output_location OUTPUT_LOCATION) qid"
    and "observes client qid k qs ''FAILED''"
    and "status_dict qs = Inr sd"
  shows "fst (execute_query_internal boto3_client format_exc s query output_location) =
         ''Query failed: '' @
         (case sd ''StateChangeReason'' of None \<Rightarrow> ''Unknown error'' | Some reason \<Rightarrow> reason)"
proof -
  have "poll_loop client qid 0 None = Inr (qs, ''FAILED'', k)"
    by (rule observes_poll[OF assms(3)]) (simp add: terminal_states_def)
  from run_query_failed[OF assms(2) this] assms(4) show ?thesis
    by (simp add: execute_query_internal_run[OF assms(1)] get_default_def)
qed

theorem failed_reports_reason_witness:
  "get_athena_client
     (always (scripted_client None (running_then 1 ''FAILED'' (Some ''SYNTAX_ERROR: line 1'')) (Inr [])))
     fresh_state =
     (Inr (scripted_client None (running_then 1 ''FAILED'' (Some ''SYNTAX_ERROR: line 1'')) (Inr [])),
      \<lparr> athena_client_var =
          Some (scripted_client None (running_then 1 ''FAILED'' (Some ''SYNTAX_ERROR: line 1'')) (Inr [])),
        boto3_calls = 1 \<rparr>) \<and>
   submits (scripted_client None (running_then 1 ''FAILED'' (Some ''SYNTAX_ERROR: line 1'')) (Inr []))
     ''SELEC 1'' (with_default None OUTPUT_LOCATION) ''q1'' \<and>
   observes (scripted_client None (running_then 1 ''FAILED'' (Some ''SYNTAX_ERROR: line 1'')) (Inr []))
     ''q1'' 1 (status_response ''FAILED'' (Some ''SYNTAX_ERROR: line 1'')) ''FAILED'' \<and>
   fst (execute_query_internal
         (always (scripted_client None (running_then 1 ''FAILED'' (Some ''SYNTAX_ERROR: line 1'')) (Inr [])))
         sample_trace fresh_state ''SELEC 1'' None) = ''Query failed: SYNTAX_ERROR: line 1''"
proof -
  let ?c = "scripted_client None (running_then 1 ''FAILED'' (Some ''SYNTAX_ERROR: line 1'')) (Inr [])"
  let ?qs = "status_response ''FAILED'' (Some ''SYNTAX_ERROR: line 1'')"
  have a: "get_athena_client (always ?c) fresh_state =
     (Inr ?c, \<lparr> athena_client_var = Some ?c, boto3_calls = 1 \<rparr>)"
    by (rule get_athena_client_fresh)
  have b: "submits ?c ''SELEC 1'' (with_default None OUTPUT_LOCATION) ''q1''"
    by (rule scripted_submits)
  have c: "observes ?c ''q1'' 1 ?qs ''FAILED''"
    by (rule scripted_observes) simp
  obtain sd where d: "status_dict ?qs = Inr sd"
    and r: "sd ''StateChangeReason'' = Some ''SYNTAX_ERROR: line 1''"
    using status_dict_response by blast
  from a b c failed_reports_reason[OF a b c d, of sample_trace] r show ?thesis
    by simp
qed

text \<open>
  C6: when each of the 30 polls answers a state that is not terminal, the loop ends
  after the 30th poll (\<open>attempt = 30\<close>) and the orchestrator returns the timeout
  message, which ends with the state \<open>st\<close> that the last poll answered.
\<close>

theorem timeout_reports_last_status:
  assumes "get_athena_client boto3_client s = (Inr client, s')"
    and "submits client query (with_default output_location OUTPUT_LOCATION) qid"
    and "\<forall>i<30. pending client qid i"
    and "get_query_execution client qid 29 = Inr qs"
    and "status_state qs = Inr st"
  shows "poll_loop client qid 0 None = Inr (qs, st, 30) \<and>
         fst (execute_query_internal boto3_client format_exc s query output_location) =
         ''Query timed out after 30 seconds. Status: '' @ st"
proof -
  have p: "poll_loop client qid 0 None = Inr (qs, st, max_attempts)"
    using assms(3,4,5) by (intro poll_loop_exhausted) (auto simp: max_attempts_def)
  from assms(3,4,5) have "st \<notin> set terminal_states"
    by (auto simp: pending_def dest!: spec[of _ 29])
  from run_query_not_terminal[OF assms(2) p this] p show ?thesis
    by (simp add: execute_query_internal_run[OF assms(1)] str_nat_30) (simp add: max_attempts_def)
qed

theorem timeout_reports_last_status_witness:
  "get_athena_client (always (scripted_client None (running_then 30 ''SUCCEEDED'' None) (Inr [])))
     fresh_state =
     (Inr (scripted_client None (running_then 30 ''SUCCEEDED'' None) (Inr [])),
      \<lparr> athena_client_var = Some (scripted_client None (running_then 30 ''SUCCEEDED'' None) (Inr [])),
        boto3_calls = 1 \<rparr>) \<and>
   submits (scripted_client None (running_then 30 ''SUCCEEDED'' None) (Inr []))
     ''SELECT 1'' (with_default None OUTPUT_LOCATION) ''q1'' \<and>
   list_all (pending (scripted_client None (running_then 30 ''SUCCEEDED'' None) (Inr [])) ''q1'')
     [0..<30] \<and>
   get_query_execution (scripted_client None (running_then 30 ''SUCCEEDED'' None) (Inr [])) ''q1'' 29 =
     Inr (status_response ''RUNNING'' None) \<and>
   status_state (status_response ''RUNNING'' None) = Inr ''RUNNING'' \<and>
   poll_loop (scripted_client None (running_then 30 ''SUCCEEDED'' None) (Inr [])) ''q1'' 0 None =
     Inr (status_response ''RUNNING'' None, ''RUNNING'', 30) \<and>
   fst (execute_query_internal
         (always (scripted_client None (running_then 30 ''SUCCEEDED'' None) (Inr [])))
         sample_trace fresh_state ''SELECT 1'' None) =
     ''Query timed out after 30 seconds. Status: RUNNING''"
proof -
  let ?c = "scripted_client None (running_then 30 ''SUCCEEDED'' None) (Inr [])"
  let ?qs = "status_response ''RUNNING'' None"
  have a: "get_athena_client (always ?c) fresh_state =
     (Inr ?c, \<lparr> athena_client_var = Some ?c, boto3_calls = 1 \<rparr>)"
    by (rule get_athena_client_fresh)
  have b: "submits ?c ''SELECT 1'' (with_default None OUTPUT_LOCATION) ''q1''"
    by (rule scripted_submits)
  have c: "\<forall>i<30. pending ?c ''q1'' i"
    by (simp add: scripted_pending)
  have d: "get_query_execution ?c ''q1'' 29 = Inr ?qs"
    by (simp add: scripted_client_def running_then_def)
  have e: "status_state ?qs = Inr ''RUNNING''"
    by simp
  have c': "list_all (pending ?c ''q1'') [0..<30]"
    using c by (simp add: list_all_iff)
  from a b c' d e timeout_reports_last_status[OF a b c d e, of sample_trace] show ?thesis
    by simp
qed








lemma scripted_succeeds_with:
  "n < 30 \<Longrightarrow>
   succeeds_with (scripted_client None (running_then n ''SUCCEEDED'' None) (Inr rows))
     query output_location ''q1'' n rows"
  by (simp add: succeeds_with_def scripted_submits scripted_observes_state scripted_fetches)

lemma data_of_data_rows: "data_of (map data_row vss) (map (map cell) vss)"
  by (simp add: data_of_def data_row_def)

lemma all_present_cells: "None \<notin> set vs \<Longrightarrow> all_present (map cell vs)"
proof (induction vs)
  case Nil
  then show ?case by (simp add: all_present_def)
next
  case (Cons v vs)
  then show ?case by (cases v) (auto simp: all_present_def cell_def)
qed

lemma execute_query_internal_fetched:
  assumes "get_athena_client boto3_client s = (Inr client, s')"
    and "succeeds_with client query (with_default output_location OUTPUT_LOCATION) qid k rows"
  shows "fst (execute_query_internal boto3_client format_exc s query output_location) =
         (case format_rows rows of Inl e \<Rightarrow> error_text format_exc e | Inr response_text \<Rightarrow> response_text)"
  by (simp add: execute_query_internal_run[OF assms(1)] run_query_fetched[OF assms(2)]
      split: sum.splits)

text \<open>
  C2: for a result set with a header row, whose cells all carry a value, and \<open>N\<close> data
  rows: when \<open>N \<le> 10\<close> the output is the head of the report followed by the lines of
  all \<open>N\<close> data rows and nothing else; when \<open>N > 10\<close> it is the head, the lines of the
  first 10 data rows and the suffix saying that \<open>N - 10\<close> more rows exist.
\<close>

theorem preview_rows_and_suffix:
  assumes "get_athena_client boto3_client s = (Inr client, s')"
    and "succeeds_with client query (with_default output_location OUTPUT_LOCATION) qid k rows"
    and "data_of rows (cols0 # data)"
    and "all_present cols0"
  shows "(length data \<le> 10 \<longrightarrow>
            fst (execute_query_internal boto3_client format_exc s query output_location) =
            report_head (row_values cols0) (length data) @ concat (map row_line data)) \<and>
         (length data > 10 \<longrightarrow>
            fst (execute_query_internal boto3_client format_exc s query output_location) =
            report_head (row_values cols0) (length data) @ concat (map row_line (take 10 data)) @
            ''\<newline>... and '' @ str_nat (length data - 10) @ '' more rows'')"
  by (simp add: execute_query_internal_fetched[OF assms(1,2)] format_rows_data[OF assms(3,4)])

lemma succeeding_client_succeeds:
  "succeeds_with (succeeding_client vss) query output_location ''q1'' 1 (map data_row vss)"
  unfolding succeeding_client_def by (rule scripted_succeeds_with) simp

lemma succeeding_client_created:
  "get_athena_client (always (succeeding_client vss)) fresh_state =
     (Inr (succeeding_client vss),
      \<lparr> athena_client_var = Some (succeeding_client vss), boto3_calls = 1 \<rparr>)"
  by (rule get_athena_client_fresh)

lemma data_of_sample:
  "data_of (map data_row (vs # vss)) (map cell vs # map (map cell) vss)"
  using data_of_data_rows[of "vs # vss"] by simp

lemmas sample_text_defs =
  report_head_def row_line_def row_values_def cell_def get_default_def str_nat.simps

theorem preview_rows_and_suffix_witness:
  "get_athena_client
     (always (succeeding_client
        [[Some ''id'', Some ''name''], [Some ''1'', Some ''ann''], [Some ''2'', None]]))
     fresh_state =
     (Inr (succeeding_client
        [[Some ''id'', Some ''name''], [Some ''1'', Some ''ann''], [Some ''2'', None]]),
      \<lparr> athena_client_var = Some (succeeding_client
          [[Some ''id'', Some ''name''], [Some ''1'', Some ''ann''], [Some ''2'', None]]),
        boto3_calls = 1 \<rparr>) \<and>
   succeeds_with
     (succeeding_client [[Some ''id'', Some ''name''], [Some ''1'', Some ''ann''], [Some ''2'', None]])
     ''SELECT * FROM t'' (with_default None OUTPUT_LOCATION) ''q1'' 1
     (map data_row [[Some ''id'', Some ''name''], [Some ''1'', Some ''ann''], [Some ''2'', None]]) \<and>
   data_of (map data_row [[Some ''id'', Some ''name''], [Some ''1'', Some ''ann''], [Some ''2'', None]])
     (map cell [Some ''id'', Some ''name''] #
      map (map cell) [[Some ''1'', Some ''ann''], [Some ''2'', None]]) \<and>
   all_present (map cell [Some ''id'', Some ''name'']) \<and>
   length (map (map cell) [[Some ''1'', Some ''ann''], [Some ''2'', None]]) \<le> 10 \<and>
   fst (execute_query_internal
         (always (succeeding_client
            [[Some ''id'', Some ''name''], [Some ''1'', Some ''ann''], [Some ''2'', None]]))
         sample_trace fresh_state ''SELECT * FROM t'' None) =
     ''Query executed successfully!\<newline>\<newline>Columns: id, name\<newline>\<newline>Results (2 rows):\<newline>1 | ann\<newline>2 | NULL\<newline>'' \<and>
   succeeds_with
     (succeeding_client ([Some ''n''] #
        map (\<lambda>v. [Some v]) [''r1'', ''r2'', ''r3'', ''r4'', ''r5'', ''r6'', ''r7'', ''r8'', ''r9'', ''r10'', ''r11'']))
     ''SELECT * FROM t'' (with_default None OUTPUT_LOCATION) ''q1'' 1
     (map data_row ([Some ''n''] #
        map (\<lambda>v. [Some v]) [''r1'', ''r2'', ''r3'', ''r4'', ''r5'', ''r6'', ''r7'', ''r8'', ''r9'', ''r10'', ''r11''])) \<and>
   10 < length (map (map cell)
        (map (\<lambda>v. [Some v]) [''r1'', ''r2'', ''r3'', ''r4'', ''r5'', ''r6'', ''r7'', ''r8'', ''r9'', ''r10'', ''r11''])) \<and>
   fst (execute_query_internal
         (always (succeeding_client ([Some ''n''] #
            map (\<lambda>v. [Some v]) [''r1'', ''r2'', ''r3'', ''r4'', ''r5'', ''r6'', ''r7'', ''r8'', ''r9'', ''r10'', ''r11''])))
         sample_trace fresh_state ''SELECT * FROM t'' None) =
     ''Query executed successfully!\<newline>\<newline>Columns: n\<newline>\<newline>Results (11 rows):\<newline>r1\<newline>r2\<newline>r3\<newline>r4\<newline>r5\<newline>r6\<newline>r7\<newline>r8\<newline>r9\<newline>r10\<newline>\<newline>... and 1 more rows''"
proof -
  let ?h = "[Some ''id'', Some ''name'']"
  let ?d = "[[Some ''1'', Some ''ann''], [Some ''2'', None]]"
  let ?h' = "[Some ''n'']"
  let ?d' = "map (\<lambda>v. [Some v]) [''r1'', ''r2'', ''r3'', ''r4'', ''r5'', ''r6'', ''r7'', ''r8'', ''r9'', ''r10'', ''r11'']"
  note a = succeeding_client_created[of "?h # ?d"]
  note b = succeeding_client_succeeds[of "?h # ?d" "''SELECT * FROM t''" "with_default None OUTPUT_LOCATION"]
  note c = data_of_sample[of ?h ?d]
  have d: "all_present (map cell ?h)" by (rule all_present_cells) simp
  note a' = succeeding_client_created[of "?h' # ?d'"]
  note b' = succeeding_client_succeeds[of "?h' # ?d'" "''SELECT * FROM t''" "with_default None OUTPUT_LOCATION"]
  note c' = data_of_sample[of ?h' ?d']
  have d': "all_present (map cell ?h')" by (rule all_present_cells) simp
  note t = preview_rows_and_suffix[OF a b c d, of sample_trace]
  note t' = preview_rows_and_suffix[OF a' b' c' d', of sample_trace]
  have r: "fst (execute_query_internal (always (succeeding_client (?h # ?d)))
         sample_trace fresh_state ''SELECT * FROM t'' None) =
     ''Query executed successfully!\<newline>\<newline>Columns: id, name\<newline>\<newline>Results (2 rows):\<newline>1 | ann\<newline>2 | NULL\<newline>''"
    using t by (simp add: sample_text_defs)
  have r': "fst (execute_query_internal (always (succeeding_client (?h' # ?d')))
         sample_trace fresh_state ''SELECT * FROM t'' None) =
     ''Query executed successfully!\<newline>\<newline>Columns: n\<newline>\<newline>Results (11 rows):\<newline>r1\<newline>r2\<newline>r3\<newline>r4\<newline>r5\<newline>r6\<newline>r7\<newline>r8\<newline>r9\<newline>r10\<newline>\<newline>... and 1 more rows''"
    using t' by (simp add: sample_text_defs)
  from a b c d r b' r' show ?thesis
    by simp
qed

lemma format_rows_single_distinct:
  "(case format_rows [row0] of Inl e \<Rightarrow> error_text format_exc e | Inr response_text \<Rightarrow> response_text)
   \<noteq> ''Query executed successfully but returned no results.''"
proof (cases "row0 ''Data''")
  case None
  then show ?thesis by (simp add: format_rows_def getitem_def error_text_def)
next
  case (Some cols0)
  show ?thesis
  proof (cases "all_present cols0")
    case True
    from Some have "data_of [row0] [cols0]" by (simp add: data_of_def)
    from format_rows_data[OF this True] show ?thesis by (simp add: report_head_def)
  next
    case False
    from Some False have "format_rows [row0] = Inl (KeyError ''VarCharValue'')"
      by (rule format_rows_header_missing)
    then show ?thesis by (simp add: error_text_def)
  qed
qed

text \<open>
  C1, as the code has it: a result set with no row at all gives the text
  \<open>Query executed successfully but returned no results.\<close>; a result set that is a
  header row only never gives that text, and when the cells of the header all carry a
  value it gives the report with the column names and \<open>Results (0 rows):\<close>, which does
  not say that the query returned no results.
\<close>

theorem header_only_report:
  assumes "get_athena_client boto3_client s = (Inr client, s')"
    and "succeeds_with client query (with_default output_location OUTPUT_LOCATION) qid k rows"
  shows "(rows = [] \<longrightarrow>
            fst (execute_query_internal boto3_client format_exc s query output_location) =
            ''Query executed successfully but returned no results.'') \<and>
         (length rows = 1 \<longrightarrow>
            fst (execute_query_internal boto3_client format_exc s query output_location) \<noteq>
            ''Query executed successfully but returned no results.'') \<and>
         (data_of rows [cols0] \<and> all_present cols0 \<longrightarrow>
            fst (execute_query_internal boto3_client format_exc s query output_location) =
            ''Query executed successfully!\<newline>\<newline>Columns: '' @ join '', '' (row_values cols0) @
            ''\<newline>\<newline>Results (0 rows):\<newline>'')"
proof (intro conjI impI)
  assume "rows = []"
  then show "fst (execute_query_internal boto3_client format_exc s query output_location) =
      ''Query executed successfully but returned no results.''"
    by (simp add: execute_query_internal_fetched[OF assms] format_rows_empty)
next
  assume "length rows = 1"
  then obtain row0 where "rows = [row0]"
    by (cases rows) auto
  then show "fst (execute_query_internal boto3_client format_exc s query output_location) \<noteq>
      ''Query executed successfully but returned no results.''"
    using format_rows_single_distinct[where ?row0.0 = row0 and format_exc = format_exc]
    by (simp add: execute_query_internal_fetched[OF assms])
next
  assume "data_of rows [cols0] \<and> all_present cols0"
  then have "format_rows rows = Inr (report_head (row_values cols0) 0)"
    using format_rows_data[of rows cols0 "[]"] by simp
  then show "fst (execute_query_internal boto3_client format_exc s query output_location) =
      ''Query executed successfully!\<newline>\<newline>Columns: '' @ join '', '' (row_values cols0) @
      ''\<newline>\<newline>Results (0 rows):\<newline>''"
    by (simp add: execute_query_internal_fetched[OF assms] report_head_def str_nat.simps)
qed

theorem header_only_report_witness:
  "get_athena_client (always (succeeding_client [])) fresh_state =
     (Inr (succeeding_client []),
      \<lparr> athena_client_var = Some (succeeding_client []), boto3_calls = 1 \<rparr>) \<and>
   succeeds_with (succeeding_client []) ''SELECT 1'' (with_default None OUTPUT_LOCATION) ''q1'' 1
     (map data_row []) \<and>
   map data_row [] = [] \<and>
   fst (execute_query_internal (always (succeeding_client [])) sample_trace fresh_state
         ''SELECT 1'' None) =
     ''Query executed successfully but returned no results.'' \<and>
   get_athena_client (always (succeeding_client [[Some ''id'', Some ''name'']])) fresh_state =
     (Inr (succeeding_client [[Some ''id'', Some ''name'']]),
      \<lparr> athena_client_var = Some (succeeding_client [[Some ''id'', Some ''name'']]),
        boto3_calls = 1 \<rparr>) \<and>
   succeeds_with (succeeding_client [[Some ''id'', Some ''name'']])
     ''SELECT 1'' (with_default None OUTPUT_LOCATION) ''q1'' 1
     (map data_row [[Some ''id'', Some ''name'']]) \<and>
   length (map data_row [[Some ''id'', Some ''name'']]) = 1 \<and>
   data_of (map data_row [[Some ''id'', Some ''name'']]) [map cell [Some ''id'', Some ''name'']] \<and>
   all_present (map cell [Some ''id'', Some ''name'']) \<and>
   fst (execute_query_internal (always (succeeding_client [[Some ''id'', Some ''name'']]))
         sample_trace fresh_state ''SELECT 1'' None) \<noteq>
     ''Query executed successfully but returned no results.'' \<and>
   fst (execute_query_internal (always (succeeding_client [[Some ''id'', Some ''name'']]))
         sample_trace fresh_state ''SELECT 1'' None) =
     ''Query executed successfully!\<newline>\<newline>Columns: id, name\<newline>\<newline>Results (0 rows):\<newline>''"
proof -
  let ?h = "[Some ''id'', Some ''name'']"
  note a = succeeding_client_created[of "[]"]
  note b = succeeding_client_succeeds[of "[]" "''SELECT 1''" "with_default None OUTPUT_LOCATION"]
  note a' = succeeding_client_created[of "[?h]"]
  note b' = succeeding_client_succeeds[of "[?h]" "''SELECT 1''" "with_default None OUTPUT_LOCATION"]
  have c': "data_of (map data_row [?h]) [map cell ?h]"
    using data_of_sample[of ?h "[]"] by simp
  have d': "all_present (map cell ?h)" by (rule all_present_cells) simp
  note t = header_only_report[OF a b, of sample_trace "map cell ?h"]
  note t' = header_only_report[OF a' b', of sample_trace "map cell ?h"]
  have r: "fst (execute_query_internal (always (succeeding_client [])) sample_trace fresh_state
         ''SELECT 1'' None) = ''Query executed successfully but returned no results.''"
    using t by simp
  have r1: "fst (execute_query_internal (always (succeeding_client [?h]))
         sample_trace fresh_state ''SELECT 1'' None) \<noteq>
     ''Query executed successfully but returned no results.''"
    using t' by simp
  have r2: "fst (execute_query_internal (always (succeeding_client [?h]))
         sample_trace fresh_state ''SELECT 1'' None) =
     ''Query executed successfully!\<newline>\<newline>Columns: id, name\<newline>\<newline>Results (0 rows):\<newline>''"
    using t' c' d' by (simp add: row_values_def cell_def get_default_def)
  from a b r a' b' c' d' r1 r2 show ?thesis
    by simp
qed

lemma header_only_sample:
  "fst (execute_query_internal (always (succeeding_client [[Some ''id'', Some ''name'']]))
         sample_trace fresh_state ''SELECT id, name FROM t WHERE 1 = 0'' None) =
     ''Query executed successfully!\<newline>\<newline>Columns: id, name\<newline>\<newline>Results (0 rows):\<newline>''"
proof -
  let ?h = "[Some ''id'', Some ''name'']"
  have "data_of (map data_row [?h]) [map cell ?h]"
    using data_of_sample[of ?h "[]"] by simp
  moreover have "all_present (map cell ?h)" by (rule all_present_cells) simp
  ultimately have "format_rows (map data_row [?h]) = Inr (report_head (row_values (map cell ?h)) 0)"
    using format_rows_data[of "map data_row [?h]" "map cell ?h" "[]"] by simp
  with execute_query_internal_fetched[OF succeeding_client_created
      succeeding_client_succeeds[of "[?h]" _ "with_default None OUTPUT_LOCATION"], of sample_trace]
  show ?thesis
    by (simp add: sample_text_defs)
qed

theorem header_only_counterexample:
  "fetches (succeeding_client [[Some ''id'', Some ''name'']]) ''q1''
     [data_row [Some ''id'', Some ''name'']] \<and>
   fst (execute_query_internal (always (succeeding_client [[Some ''id'', Some ''name'']]))
         sample_trace fresh_state ''SELECT id, name FROM t WHERE 1 = 0'' None) =
     ''Query executed successfully!\<newline>\<newline>Columns: id, name\<newline>\<newline>Results (0 rows):\<newline>'' \<and>
   \<not> sublist ''returned no results''
     (fst (execute_query_internal (always (succeeding_client [[Some ''id'', Some ''name'']]))
         sample_trace fresh_state ''SELECT id, name FROM t WHERE 1 = 0'' None))"
proof -
  have "fetches (succeeding_client [[Some ''id'', Some ''name'']]) ''q1''
     [data_row [Some ''id'', Some ''name'']]"
    using scripted_fetches[of None "running_then 1 ''SUCCEEDED'' None"
        "map data_row [[Some ''id'', Some ''name'']]" "''q1''"]
    by (simp add: succeeding_client_def)
  moreover have "\<not> sublist ''returned no results''
     ''Query executed successfully!\<newline>\<newline>Columns: id, name\<newline>\<newline>Results (0 rows):\<newline>''"
    by code_simp
  ultimately show ?thesis
    by (simp only: header_only_sample simp_thms)
qed





text \<open>
  C9: when the query succeeds and some cell of the header row (row 0) has no value,
  the lookup of the header cell raises \<^verbatim>\<open>KeyError('VarCharValue')\<close> and the invocation
  returns the error text of that exception; no report is rendered, whatever the data
  rows are.
\<close>

theorem header_missing_value_is_error:
  assumes "get_athena_client boto3_client s = (Inr client, s')"
    and "succeeds_with client query (with_default output_location OUTPUT_LOCATION) qid k rows"
    and "rows = row0 # rest"
    and "row0 ''Data'' = Some cols0"
    and "\<exists>col \<in> set cols0. col ''VarCharValue'' = None"
  shows "fst (execute_query_internal boto3_client format_exc s query output_location) =
         ''Error: '' @ [CHR 0x27] @ ''VarCharValue'' @ [CHR 0x27] @ ''\<newline>'' @
         format_exc (KeyError ''VarCharValue'')"
proof -
  from assms(5) have "\<not> all_present cols0"
    by (simp add: all_present_def)
  with assms(4) have "format_rows (row0 # rest) = Inl (KeyError ''VarCharValue'')"
    by (rule format_rows_header_missing)
  then show ?thesis
    by (simp add: execute_query_internal_fetched[OF assms(1,2)] assms(3) error_text_def)
qed

theorem header_missing_value_is_error_witness:
  "get_athena_client
     (always (succeeding_client [[Some ''id'', None], [Some ''1'', Some ''ann'']]))
     fresh_state =
     (Inr (succeeding_client [[Some ''id'', None], [Some ''1'', Some ''ann'']]),
      \<lparr> athena_client_var = Some (succeeding_client [[Some ''id'', None], [Some ''1'', Some ''ann'']]),
        boto3_calls = 1 \<rparr>) \<and>
   succeeds_with (succeeding_client [[Some ''id'', None], [Some ''1'', Some ''ann'']])
     ''SELECT * FROM t'' (with_default None OUTPUT_LOCATION) ''q1'' 1
     (map data_row [[Some ''id'', None], [Some ''1'', Some ''ann'']]) \<and>
   map data_row [[Some ''id'', None], [Some ''1'', Some ''ann'']] =
     data_row [Some ''id'', None] # [data_row [Some ''1'', Some ''ann'']] \<and>
   data_row [Some ''id'', None] ''Data'' = Some [cell (Some ''id''), cell None] \<and>
   (\<exists>col \<in> set [cell (Some ''id''), cell None]. col ''VarCharValue'' = None) \<and>
   fst (execute_query_internal
         (always (succeeding_client [[Some ''id'', None], [Some ''1'', Some ''ann'']]))
         sample_trace fresh_state ''SELECT * FROM t'' None) =
     ''Error: '' @ [CHR 0x27] @ ''VarCharValue'' @ [CHR 0x27] @
     ''\<newline>Traceback (most recent call last): ...''"
proof -
  let ?vss = "[[Some ''id'', None], [Some ''1'', Some ''ann'']]"
  note a = succeeding_client_created[of ?vss]
  note b = succeeding_client_succeeds[of ?vss "''SELECT * FROM t''" "with_default None OUTPUT_LOCATION"]
  have c: "map data_row ?vss = data_row [Some ''id'', None] # [data_row [Some ''1'', Some ''ann'']]"
    by simp
  have d: "data_row [Some ''id'', None] ''Data'' = Some [cell (Some ''id''), cell None]"
    by (simp add: data_row_def)
  have e: "\<exists>col \<in> set [cell (Some ''id''), cell None]. col ''VarCharValue'' = None"
    by (simp add: cell_def)
  from a b c d e header_missing_value_is_error[OF a b c d e, of sample_trace] show ?thesis
    by (simp add: sample_trace_def)
qed











end
